theory Spec2Isabelle
  imports Complex_Main
begin

section \<open>VIC land-surface model: the definitions of \<^verbatim>\<open>vicNl_def.h\<close>\<close>

text \<open>
  The header \<^verbatim>\<open>vicNl_def.h\<close> declares the model constants, the codes of the forcing
  and output variables, and the structures that hold the state of a grid cell. It holds
  no function. Integer codes are natural numbers here, a \<^verbatim>\<open>double\<close> is a real number
  (rounding is not modelled), a C array is a list, and a structure is a record that
  keeps the names of the fields it takes over.
\<close>

subsection \<open>Forcing variable types\<close>

definition N_FORCING_TYPES :: nat where "N_FORCING_TYPES = 24"

definition AIR_TEMP :: nat where "AIR_TEMP = 0"
definition ALBEDO :: nat where "ALBEDO = 1"
definition CRAINF :: nat where "CRAINF = 2"
definition CSNOWF :: nat where "CSNOWF = 3"
definition DENSITY :: nat where "DENSITY = 4"
definition LONGWAVE :: nat where "LONGWAVE = 5"
definition LSRAINF :: nat where "LSRAINF = 6"
definition LSSNOWF :: nat where "LSSNOWF = 7"
definition PREC :: nat where "PREC = 8"
definition PRESSURE :: nat where "PRESSURE = 9"
definition PSURF :: nat where "PSURF = 10"
definition QAIR :: nat where "QAIR = 11"
definition RAINF :: nat where "RAINF = 12"
definition SHORTWAVE :: nat where "SHORTWAVE = 13"
definition SNOWF :: nat where "SNOWF = 14"
definition TAIR :: nat where "TAIR = 15"
definition TMAX :: nat where "TMAX = 16"
definition TMIN :: nat where "TMIN = 17"
definition TSKC :: nat where "TSKC = 18"
definition VP :: nat where "VP = 19"
definition WIND :: nat where "WIND = 20"
definition WIND_E :: nat where "WIND_E = 21"
definition WIND_N :: nat where "WIND_N = 22"
definition SKIP :: nat where "SKIP = 23"

text \<open>The forcing codes in the order of their \<^verbatim>\<open>#define\<close> lines.\<close>

definition forcing_types :: "nat list" where
  "forcing_types =
  [AIR_TEMP, ALBEDO, CRAINF, CSNOWF, DENSITY, LONGWAVE, LSRAINF, LSSNOWF, PREC, PRESSURE,
   PSURF, QAIR, RAINF, SHORTWAVE, SNOWF, TAIR, TMAX, TMIN, TSKC, VP, WIND, WIND_E, WIND_N,
   SKIP]"

subsection \<open>Output variable types\<close>

definition N_OUTVAR_TYPES :: nat where "N_OUTVAR_TYPES = 110"


text \<open>Water Balance Terms - state variables\<close>

definition OUT_LAKE_DEPTH :: nat where "OUT_LAKE_DEPTH = 0"
definition OUT_LAKE_ICE :: nat where "OUT_LAKE_ICE = 1"
definition OUT_LAKE_ICE_FRACT :: nat where "OUT_LAKE_ICE_FRACT = 2"
definition OUT_LAKE_ICE_HEIGHT :: nat where "OUT_LAKE_ICE_HEIGHT = 3"
definition OUT_LAKE_MOIST :: nat where "OUT_LAKE_MOIST = 4"
definition OUT_LAKE_SURF_AREA :: nat where "OUT_LAKE_SURF_AREA = 5"
definition OUT_LAKE_VOLUME :: nat where "OUT_LAKE_VOLUME = 6"
definition OUT_ROOTMOIST :: nat where "OUT_ROOTMOIST = 7"
definition OUT_SMFROZFRAC :: nat where "OUT_SMFROZFRAC = 8"
definition OUT_SMLIQFRAC :: nat where "OUT_SMLIQFRAC = 9"
definition OUT_SNOW_CANOPY :: nat where "OUT_SNOW_CANOPY = 10"
definition OUT_SNOW_COVER :: nat where "OUT_SNOW_COVER = 11"
definition OUT_SNOW_DEPTH :: nat where "OUT_SNOW_DEPTH = 12"
definition OUT_SOIL_ICE :: nat where "OUT_SOIL_ICE = 13"
definition OUT_SOIL_LIQ :: nat where "OUT_SOIL_LIQ = 14"
definition OUT_SOIL_MOIST :: nat where "OUT_SOIL_MOIST = 15"
definition OUT_SOIL_WET :: nat where "OUT_SOIL_WET = 16"
definition OUT_SURFSTOR :: nat where "OUT_SURFSTOR = 17"
definition OUT_SURF_FROST_FRAC :: nat where "OUT_SURF_FROST_FRAC = 18"
definition OUT_SWE :: nat where "OUT_SWE = 19"
definition OUT_WDEW :: nat where "OUT_WDEW = 20"

text \<open>Water Balance Terms - fluxes\<close>

definition OUT_BASEFLOW :: nat where "OUT_BASEFLOW = 21"
definition OUT_DELINTERCEPT :: nat where "OUT_DELINTERCEPT = 22"
definition OUT_DELSOILMOIST :: nat where "OUT_DELSOILMOIST = 23"
definition OUT_DELSURFSTOR :: nat where "OUT_DELSURFSTOR = 24"
definition OUT_DELSWE :: nat where "OUT_DELSWE = 25"
definition OUT_EVAP :: nat where "OUT_EVAP = 26"
definition OUT_EVAP_BARE :: nat where "OUT_EVAP_BARE = 27"
definition OUT_EVAP_CANOP :: nat where "OUT_EVAP_CANOP = 28"
definition OUT_EVAP_LAKE :: nat where "OUT_EVAP_LAKE = 29"
definition OUT_INFLOW :: nat where "OUT_INFLOW = 30"
definition OUT_PREC :: nat where "OUT_PREC = 31"
definition OUT_RAINF :: nat where "OUT_RAINF = 32"
definition OUT_REFREEZE :: nat where "OUT_REFREEZE = 33"
definition OUT_RUNOFF :: nat where "OUT_RUNOFF = 34"
definition OUT_SNOW_MELT :: nat where "OUT_SNOW_MELT = 35"
definition OUT_SNOWF :: nat where "OUT_SNOWF = 36"
definition OUT_SUB_BLOWING :: nat where "OUT_SUB_BLOWING = 37"
definition OUT_SUB_CANOP :: nat where "OUT_SUB_CANOP = 38"
definition OUT_SUB_SNOW :: nat where "OUT_SUB_SNOW = 39"
definition OUT_SUB_SURFACE :: nat where "OUT_SUB_SURFACE = 40"
definition OUT_TRANSP_VEG :: nat where "OUT_TRANSP_VEG = 41"

text \<open>Energy Balance Terms - state variables\<close>

definition OUT_ALBEDO :: nat where "OUT_ALBEDO = 42"
definition OUT_BARESOILT :: nat where "OUT_BARESOILT = 43"
definition OUT_FDEPTH :: nat where "OUT_FDEPTH = 44"
definition OUT_LAKE_ICE_TEMP :: nat where "OUT_LAKE_ICE_TEMP = 45"
definition OUT_LAKE_SURF_TEMP :: nat where "OUT_LAKE_SURF_TEMP = 46"
definition OUT_RAD_TEMP :: nat where "OUT_RAD_TEMP = 47"
definition OUT_SALBEDO :: nat where "OUT_SALBEDO = 48"
definition OUT_SNOW_PACK_TEMP :: nat where "OUT_SNOW_PACK_TEMP = 49"
definition OUT_SNOW_SURF_TEMP :: nat where "OUT_SNOW_SURF_TEMP = 50"
definition OUT_SOIL_TEMP :: nat where "OUT_SOIL_TEMP = 51"
definition OUT_SOIL_TNODE :: nat where "OUT_SOIL_TNODE = 52"
definition OUT_SURF_TEMP :: nat where "OUT_SURF_TEMP = 53"
definition OUT_TDEPTH :: nat where "OUT_TDEPTH = 54"
definition OUT_VEGT :: nat where "OUT_VEGT = 55"

text \<open>Energy Balance Terms - fluxes\<close>

definition OUT_ADV_SENS :: nat where "OUT_ADV_SENS = 56"
definition OUT_ADVECTION :: nat where "OUT_ADVECTION = 57"
definition OUT_DELTACC :: nat where "OUT_DELTACC = 58"
definition OUT_DELTAH :: nat where "OUT_DELTAH = 59"
definition OUT_ENERGY_ERROR :: nat where "OUT_ENERGY_ERROR = 60"
definition OUT_FUSION :: nat where "OUT_FUSION = 61"
definition OUT_GRND_FLUX :: nat where "OUT_GRND_FLUX = 62"
definition OUT_IN_LONG :: nat where "OUT_IN_LONG = 63"
definition OUT_LATENT :: nat where "OUT_LATENT = 64"
definition OUT_LATENT_SUB :: nat where "OUT_LATENT_SUB = 65"
definition OUT_MELT_ENERGY :: nat where "OUT_MELT_ENERGY = 66"
definition OUT_NET_LONG :: nat where "OUT_NET_LONG = 67"
definition OUT_NET_SHORT :: nat where "OUT_NET_SHORT = 68"
definition OUT_R_NET :: nat where "OUT_R_NET = 69"
definition OUT_RFRZ_ENERGY :: nat where "OUT_RFRZ_ENERGY = 70"
definition OUT_SENSIBLE :: nat where "OUT_SENSIBLE = 71"
definition OUT_SNOW_FLUX :: nat where "OUT_SNOW_FLUX = 72"

text \<open>Miscellaneous Terms\<close>

definition OUT_AERO_RESIST :: nat where "OUT_AERO_RESIST = 73"
definition OUT_AERO_COND :: nat where "OUT_AERO_COND = 74"
definition OUT_AIR_TEMP :: nat where "OUT_AIR_TEMP = 75"
definition OUT_DENSITY :: nat where "OUT_DENSITY = 76"
definition OUT_LONGWAVE :: nat where "OUT_LONGWAVE = 77"
definition OUT_PRESSURE :: nat where "OUT_PRESSURE = 78"
definition OUT_QAIR :: nat where "OUT_QAIR = 79"
definition OUT_REL_HUMID :: nat where "OUT_REL_HUMID = 80"
definition OUT_SHORTWAVE :: nat where "OUT_SHORTWAVE = 81"
definition OUT_SURF_COND :: nat where "OUT_SURF_COND = 82"
definition OUT_VP :: nat where "OUT_VP = 83"
definition OUT_WIND :: nat where "OUT_WIND = 84"

text \<open>Band-specific quantities\<close>

definition OUT_ADV_SENS_BAND :: nat where "OUT_ADV_SENS_BAND = 85"
definition OUT_ADVECTION_BAND :: nat where "OUT_ADVECTION_BAND = 86"
definition OUT_ALBEDO_BAND :: nat where "OUT_ALBEDO_BAND = 87"
definition OUT_DELTACC_BAND :: nat where "OUT_DELTACC_BAND = 88"
definition OUT_GRND_FLUX_BAND :: nat where "OUT_GRND_FLUX_BAND = 89"
definition OUT_IN_LONG_BAND :: nat where "OUT_IN_LONG_BAND = 90"
definition OUT_LATENT_BAND :: nat where "OUT_LATENT_BAND = 91"
definition OUT_LATENT_SUB_BAND :: nat where "OUT_LATENT_SUB_BAND = 92"
definition OUT_MELT_ENERGY_BAND :: nat where "OUT_MELT_ENERGY_BAND = 93"
definition OUT_NET_LONG_BAND :: nat where "OUT_NET_LONG_BAND = 94"
definition OUT_NET_SHORT_BAND :: nat where "OUT_NET_SHORT_BAND = 95"
definition OUT_RFRZ_ENERGY_BAND :: nat where "OUT_RFRZ_ENERGY_BAND = 96"
definition OUT_SENSIBLE_BAND :: nat where "OUT_SENSIBLE_BAND = 97"
definition OUT_SNOW_CANOPY_BAND :: nat where "OUT_SNOW_CANOPY_BAND = 98"
definition OUT_SNOW_COVER_BAND :: nat where "OUT_SNOW_COVER_BAND = 99"
definition OUT_SNOW_DEPTH_BAND :: nat where "OUT_SNOW_DEPTH_BAND = 100"
definition OUT_SNOW_FLUX_BAND :: nat where "OUT_SNOW_FLUX_BAND = 101"
definition OUT_SNOW_MELT_BAND :: nat where "OUT_SNOW_MELT_BAND = 102"
definition OUT_SNOW_PACKT_BAND :: nat where "OUT_SNOW_PACKT_BAND = 103"
definition OUT_SNOW_SURFT_BAND :: nat where "OUT_SNOW_SURFT_BAND = 104"
definition OUT_SWE_BAND :: nat where "OUT_SWE_BAND = 105"

text \<open>
  The output variables in the order of their \<^verbatim>\<open>#define\<close> lines, each code with the
  name the header gives it.
\<close>

definition outvar_table :: "(nat \<times> string) list" where
  "outvar_table =
  [(OUT_LAKE_DEPTH, ''OUT_LAKE_DEPTH''), (OUT_LAKE_ICE, ''OUT_LAKE_ICE''),
   (OUT_LAKE_ICE_FRACT, ''OUT_LAKE_ICE_FRACT''),
   (OUT_LAKE_ICE_HEIGHT, ''OUT_LAKE_ICE_HEIGHT''), (OUT_LAKE_MOIST, ''OUT_LAKE_MOIST''),
   (OUT_LAKE_SURF_AREA, ''OUT_LAKE_SURF_AREA''), (OUT_LAKE_VOLUME, ''OUT_LAKE_VOLUME''),
   (OUT_ROOTMOIST, ''OUT_ROOTMOIST''), (OUT_SMFROZFRAC, ''OUT_SMFROZFRAC''),
   (OUT_SMLIQFRAC, ''OUT_SMLIQFRAC''), (OUT_SNOW_CANOPY, ''OUT_SNOW_CANOPY''),
   (OUT_SNOW_COVER, ''OUT_SNOW_COVER''), (OUT_SNOW_DEPTH, ''OUT_SNOW_DEPTH''),
   (OUT_SOIL_ICE, ''OUT_SOIL_ICE''), (OUT_SOIL_LIQ, ''OUT_SOIL_LIQ''),
   (OUT_SOIL_MOIST, ''OUT_SOIL_MOIST''), (OUT_SOIL_WET, ''OUT_SOIL_WET''),
   (OUT_SURFSTOR, ''OUT_SURFSTOR''), (OUT_SURF_FROST_FRAC, ''OUT_SURF_FROST_FRAC''),
   (OUT_SWE, ''OUT_SWE''), (OUT_WDEW, ''OUT_WDEW''), (OUT_BASEFLOW, ''OUT_BASEFLOW''),
   (OUT_DELINTERCEPT, ''OUT_DELINTERCEPT''), (OUT_DELSOILMOIST, ''OUT_DELSOILMOIST''),
   (OUT_DELSURFSTOR, ''OUT_DELSURFSTOR''), (OUT_DELSWE, ''OUT_DELSWE''),
   (OUT_EVAP, ''OUT_EVAP''), (OUT_EVAP_BARE, ''OUT_EVAP_BARE''),
   (OUT_EVAP_CANOP, ''OUT_EVAP_CANOP''), (OUT_EVAP_LAKE, ''OUT_EVAP_LAKE''),
   (OUT_INFLOW, ''OUT_INFLOW''), (OUT_PREC, ''OUT_PREC''), (OUT_RAINF, ''OUT_RAINF''),
   (OUT_REFREEZE, ''OUT_REFREEZE''), (OUT_RUNOFF, ''OUT_RUNOFF''),
   (OUT_SNOW_MELT, ''OUT_SNOW_MELT''), (OUT_SNOWF, ''OUT_SNOWF''),
   (OUT_SUB_BLOWING, ''OUT_SUB_BLOWING''), (OUT_SUB_CANOP, ''OUT_SUB_CANOP''),
   (OUT_SUB_SNOW, ''OUT_SUB_SNOW''), (OUT_SUB_SURFACE, ''OUT_SUB_SURFACE''),
   (OUT_TRANSP_VEG, ''OUT_TRANSP_VEG''), (OUT_ALBEDO, ''OUT_ALBEDO''),
   (OUT_BARESOILT, ''OUT_BARESOILT''), (OUT_FDEPTH, ''OUT_FDEPTH''),
   (OUT_LAKE_ICE_TEMP, ''OUT_LAKE_ICE_TEMP''),
   (OUT_LAKE_SURF_TEMP, ''OUT_LAKE_SURF_TEMP''), (OUT_RAD_TEMP, ''OUT_RAD_TEMP''),
   (OUT_SALBEDO, ''OUT_SALBEDO''), (OUT_SNOW_PACK_TEMP, ''OUT_SNOW_PACK_TEMP''),
   (OUT_SNOW_SURF_TEMP, ''OUT_SNOW_SURF_TEMP''), (OUT_SOIL_TEMP, ''OUT_SOIL_TEMP''),
   (OUT_SOIL_TNODE, ''OUT_SOIL_TNODE''), (OUT_SURF_TEMP, ''OUT_SURF_TEMP''),
   (OUT_TDEPTH, ''OUT_TDEPTH''), (OUT_VEGT, ''OUT_VEGT''),
   (OUT_ADV_SENS, ''OUT_ADV_SENS''), (OUT_ADVECTION, ''OUT_ADVECTION''),
   (OUT_DELTACC, ''OUT_DELTACC''), (OUT_DELTAH, ''OUT_DELTAH''),
   (OUT_ENERGY_ERROR, ''OUT_ENERGY_ERROR''), (OUT_FUSION, ''OUT_FUSION''),
   (OUT_GRND_FLUX, ''OUT_GRND_FLUX''), (OUT_IN_LONG, ''OUT_IN_LONG''),
   (OUT_LATENT, ''OUT_LATENT''), (OUT_LATENT_SUB, ''OUT_LATENT_SUB''),
   (OUT_MELT_ENERGY, ''OUT_MELT_ENERGY''), (OUT_NET_LONG, ''OUT_NET_LONG''),
   (OUT_NET_SHORT, ''OUT_NET_SHORT''), (OUT_R_NET, ''OUT_R_NET''),
   (OUT_RFRZ_ENERGY, ''OUT_RFRZ_ENERGY''), (OUT_SENSIBLE, ''OUT_SENSIBLE''),
   (OUT_SNOW_FLUX, ''OUT_SNOW_FLUX''), (OUT_AERO_RESIST, ''OUT_AERO_RESIST''),
   (OUT_AERO_COND, ''OUT_AERO_COND''), (OUT_AIR_TEMP, ''OUT_AIR_TEMP''),
   (OUT_DENSITY, ''OUT_DENSITY''), (OUT_LONGWAVE, ''OUT_LONGWAVE''),
   (OUT_PRESSURE, ''OUT_PRESSURE''), (OUT_QAIR, ''OUT_QAIR''),
   (OUT_REL_HUMID, ''OUT_REL_HUMID''), (OUT_SHORTWAVE, ''OUT_SHORTWAVE''),
   (OUT_SURF_COND, ''OUT_SURF_COND''), (OUT_VP, ''OUT_VP''), (OUT_WIND, ''OUT_WIND''),
   (OUT_ADV_SENS_BAND, ''OUT_ADV_SENS_BAND''),
   (OUT_ADVECTION_BAND, ''OUT_ADVECTION_BAND''), (OUT_ALBEDO_BAND, ''OUT_ALBEDO_BAND''),
   (OUT_DELTACC_BAND, ''OUT_DELTACC_BAND''), (OUT_GRND_FLUX_BAND, ''OUT_GRND_FLUX_BAND''),
   (OUT_IN_LONG_BAND, ''OUT_IN_LONG_BAND''), (OUT_LATENT_BAND, ''OUT_LATENT_BAND''),
   (OUT_LATENT_SUB_BAND, ''OUT_LATENT_SUB_BAND''),
   (OUT_MELT_ENERGY_BAND, ''OUT_MELT_ENERGY_BAND''),
   (OUT_NET_LONG_BAND, ''OUT_NET_LONG_BAND''),
   (OUT_NET_SHORT_BAND, ''OUT_NET_SHORT_BAND''),
   (OUT_RFRZ_ENERGY_BAND, ''OUT_RFRZ_ENERGY_BAND''),
   (OUT_SENSIBLE_BAND, ''OUT_SENSIBLE_BAND''),
   (OUT_SNOW_CANOPY_BAND, ''OUT_SNOW_CANOPY_BAND''),
   (OUT_SNOW_COVER_BAND, ''OUT_SNOW_COVER_BAND''),
   (OUT_SNOW_DEPTH_BAND, ''OUT_SNOW_DEPTH_BAND''),
   (OUT_SNOW_FLUX_BAND, ''OUT_SNOW_FLUX_BAND''),
   (OUT_SNOW_MELT_BAND, ''OUT_SNOW_MELT_BAND''),
   (OUT_SNOW_PACKT_BAND, ''OUT_SNOW_PACKT_BAND''),
   (OUT_SNOW_SURFT_BAND, ''OUT_SNOW_SURFT_BAND''), (OUT_SWE_BAND, ''OUT_SWE_BAND'')]"

definition outvar_types :: "nat list" where
  "outvar_types = map fst outvar_table"

subsection \<open>Energy balance record: freezing and thawing fronts\<close>

text \<open>
  The fields of \<^verbatim>\<open>energy_bal_struct\<close> that hold the fronts: the flag for frozen soil,
  all simulated freezing front depths, all simulated thawing front depths, and the
  numbers of simulated freezing and thawing fronts (counts, so natural numbers here).
  The arrays \<^verbatim>\<open>fdepth\<close> and \<^verbatim>\<open>tdepth\<close> have \<^verbatim>\<open>MAX_FRONTS\<close> elements each, of which
  the first \<^verbatim>\<open>Nfrost\<close> and \<^verbatim>\<open>Nthaw\<close> are the simulated fronts. \<^verbatim>\<open>MAX_FRONTS\<close> comes
  from \<^verbatim>\<open>user_def.h\<close>, which is not part of the sources: it is the parameter
  \<open>max_fronts\<close> of everything below.
\<close>

record energy_bal_struct =
  frozen :: bool
  fdepth :: "real list"
  tdepth :: "real list"
  Nfrost :: nat
  Nthaw :: nat

definition fronts_bounded :: "nat \<Rightarrow> energy_bal_struct \<Rightarrow> bool" where
  "fronts_bounded max_fronts e =
     (length (fdepth e) = max_fronts \<and> length (tdepth e) = max_fronts
      \<and> Nfrost e \<le> max_fronts \<and> Nthaw e \<le> max_fronts)"

definition freezing_fronts :: "energy_bal_struct \<Rightarrow> real list" where
  "freezing_fronts e = take (Nfrost e) (fdepth e)"

definition thawing_fronts :: "energy_bal_struct \<Rightarrow> real list" where
  "thawing_fronts e = take (Nthaw e) (tdepth e)"

text \<open>
  Modelled from the spec: the routine that tracks the fronts is not in the header. The
  spec keeps the depths of the fronts in a bounded list and discards the oldest when the
  capacity is exceeded. \<open>record_front\<close> stores a new depth behind the \<open>n\<close> depths
  recorded so far; in a full array every depth moves one place down, the oldest (at
  index 0) is lost, and the new one takes the last place.
\<close>

definition record_front :: "nat \<Rightarrow> real \<Rightarrow> real list \<Rightarrow> nat \<Rightarrow> real list \<times> nat" where
  "record_front max_fronts d depths n =
     (if n < max_fronts then (depths[n := d], Suc n)
      else (tl depths @ [d], n))"

text \<open>
  Modelled from the spec: the update of a record by one front that the column solver
  has found, a freezing front or a thawing front with its depth. Each kind goes to its
  own array and count.
\<close>

datatype front = Freezing_front real | Thawing_front real

fun add_front :: "nat \<Rightarrow> front \<Rightarrow> energy_bal_struct \<Rightarrow> energy_bal_struct" where
  "add_front max_fronts (Freezing_front d) e =
     (case record_front max_fronts d (fdepth e) (Nfrost e) of
        (depths, n) \<Rightarrow> e\<lparr>fdepth := depths, Nfrost := n\<rparr>)"
| "add_front max_fronts (Thawing_front d) e =
     (case record_front max_fronts d (tdepth e) (Nthaw e) of
        (depths, n) \<Rightarrow> e\<lparr>tdepth := depths, Nthaw := n\<rparr>)"

text \<open>
  Modelled from the spec: any number of updates, one after the other, first front first.
\<close>

fun add_fronts :: "nat \<Rightarrow> front list \<Rightarrow> energy_bal_struct \<Rightarrow> energy_bal_struct" where
  "add_fronts max_fronts [] e = e"
| "add_fronts max_fronts (f # fs) e = add_fronts max_fronts fs (add_front max_fronts f e)"

text \<open>The depths of the freezing fronts, and of the thawing fronts, among the added ones.\<close>

fun freezing_depths :: "front list \<Rightarrow> real list" where
  "freezing_depths [] = []"
| "freezing_depths (Freezing_front d # fs) = d # freezing_depths fs"
| "freezing_depths (Thawing_front d # fs) = freezing_depths fs"

fun thawing_depths :: "front list \<Rightarrow> real list" where
  "thawing_depths [] = []"
| "thawing_depths (Freezing_front d # fs) = thawing_depths fs"
| "thawing_depths (Thawing_front d # fs) = d # thawing_depths fs"

text \<open>The newest \<open>k\<close> elements of a list that grows at its end.\<close>

definition newest :: "nat \<Rightarrow> 'a list \<Rightarrow> 'a list" where
  "newest k xs = drop (length xs - k) xs"

lemmas forcing_code_defs =
  AIR_TEMP_def ALBEDO_def CRAINF_def CSNOWF_def DENSITY_def LONGWAVE_def LSRAINF_def
  LSSNOWF_def PREC_def PRESSURE_def PSURF_def QAIR_def RAINF_def SHORTWAVE_def SNOWF_def
  TAIR_def TMAX_def TMIN_def TSKC_def VP_def WIND_def WIND_E_def WIND_N_def SKIP_def

lemmas outvar_code_defs =
  OUT_LAKE_DEPTH_def OUT_LAKE_ICE_def OUT_LAKE_ICE_FRACT_def OUT_LAKE_ICE_HEIGHT_def
  OUT_LAKE_MOIST_def OUT_LAKE_SURF_AREA_def OUT_LAKE_VOLUME_def OUT_ROOTMOIST_def
  OUT_SMFROZFRAC_def OUT_SMLIQFRAC_def OUT_SNOW_CANOPY_def OUT_SNOW_COVER_def
  OUT_SNOW_DEPTH_def OUT_SOIL_ICE_def OUT_SOIL_LIQ_def OUT_SOIL_MOIST_def OUT_SOIL_WET_def
  OUT_SURFSTOR_def OUT_SURF_FROST_FRAC_def OUT_SWE_def OUT_WDEW_def OUT_BASEFLOW_def
  OUT_DELINTERCEPT_def OUT_DELSOILMOIST_def OUT_DELSURFSTOR_def OUT_DELSWE_def OUT_EVAP_def
  OUT_EVAP_BARE_def OUT_EVAP_CANOP_def OUT_EVAP_LAKE_def OUT_INFLOW_def OUT_PREC_def
  OUT_RAINF_def OUT_REFREEZE_def OUT_RUNOFF_def OUT_SNOW_MELT_def OUT_SNOWF_def
  OUT_SUB_BLOWING_def OUT_SUB_CANOP_def OUT_SUB_SNOW_def OUT_SUB_SURFACE_def
  OUT_TRANSP_VEG_def OUT_ALBEDO_def OUT_BARESOILT_def OUT_FDEPTH_def OUT_LAKE_ICE_TEMP_def
  OUT_LAKE_SURF_TEMP_def OUT_RAD_TEMP_def OUT_SALBEDO_def OUT_SNOW_PACK_TEMP_def
  OUT_SNOW_SURF_TEMP_def OUT_SOIL_TEMP_def OUT_SOIL_TNODE_def OUT_SURF_TEMP_def
  OUT_TDEPTH_def OUT_VEGT_def OUT_ADV_SENS_def OUT_ADVECTION_def OUT_DELTACC_def
  OUT_DELTAH_def OUT_ENERGY_ERROR_def OUT_FUSION_def OUT_GRND_FLUX_def OUT_IN_LONG_def
  OUT_LATENT_def OUT_LATENT_SUB_def OUT_MELT_ENERGY_def OUT_NET_LONG_def OUT_NET_SHORT_def
  OUT_R_NET_def OUT_RFRZ_ENERGY_def OUT_SENSIBLE_def OUT_SNOW_FLUX_def OUT_AERO_RESIST_def
  OUT_AERO_COND_def OUT_AIR_TEMP_def OUT_DENSITY_def OUT_LONGWAVE_def OUT_PRESSURE_def
  OUT_QAIR_def OUT_REL_HUMID_def OUT_SHORTWAVE_def OUT_SURF_COND_def OUT_VP_def
  OUT_WIND_def OUT_ADV_SENS_BAND_def OUT_ADVECTION_BAND_def OUT_ALBEDO_BAND_def
  OUT_DELTACC_BAND_def OUT_GRND_FLUX_BAND_def OUT_IN_LONG_BAND_def OUT_LATENT_BAND_def
  OUT_LATENT_SUB_BAND_def OUT_MELT_ENERGY_BAND_def OUT_NET_LONG_BAND_def
  OUT_NET_SHORT_BAND_def OUT_RFRZ_ENERGY_BAND_def OUT_SENSIBLE_BAND_def
  OUT_SNOW_CANOPY_BAND_def OUT_SNOW_COVER_BAND_def OUT_SNOW_DEPTH_BAND_def
  OUT_SNOW_FLUX_BAND_def OUT_SNOW_MELT_BAND_def OUT_SNOW_PACKT_BAND_def
  OUT_SNOW_SURFT_BAND_def OUT_SWE_BAND_def

section \<open>Properties\<close>

subsection \<open>Enumeration codes\<close>

lemma forcing_types_upt: "forcing_types = [0..<24]"
  unfolding forcing_types_def forcing_code_defs by (simp add: upt_rec)

lemma outvar_types_upt: "outvar_types = [0..<106]"
  unfolding outvar_types_def outvar_table_def outvar_code_defs by (simp add: upt_rec)

text \<open>
  C10. The forcing codes are pairwise distinct and are exactly the codes
  \<open>0 .. N_FORCING_TYPES - 1\<close>, with \<open>N_FORCING_TYPES = 24\<close> and the place holder
  \<open>SKIP = 23\<close> the last one. The output codes are pairwise distinct and are exactly
  the codes \<open>0 .. 105\<close>: all of them are below \<open>N_OUTVAR_TYPES = 110\<close>, and the codes
  \<open>106 .. 109\<close> are not assigned. An array of \<open>N_FORCING_TYPES\<close> (or \<open>N_OUTVAR_TYPES\<close>)
  elements is therefore read in bounds at every code.
\<close>

theorem enum_codes_distinct_in_bounds:
  "distinct forcing_types \<and> set forcing_types = {0..<N_FORCING_TYPES}
   \<and> N_FORCING_TYPES = 24 \<and> SKIP = 23 \<and> last forcing_types = SKIP
   \<and> distinct outvar_types \<and> set outvar_types = {0..<106}
   \<and> Max (set outvar_types) < N_OUTVAR_TYPES \<and> N_OUTVAR_TYPES = 110
   \<and> set outvar_types \<inter> {106..<110} = {}"
proof -
  have f: "distinct forcing_types \<and> set forcing_types = {0..<N_FORCING_TYPES}"
    unfolding forcing_types_upt N_FORCING_TYPES_def by simp
  have l: "last forcing_types = SKIP"
    unfolding forcing_types_def SKIP_def by simp
  have o: "distinct outvar_types \<and> set outvar_types = {0..<106}"
    unfolding outvar_types_upt by simp
  have m: "Max (set outvar_types) < N_OUTVAR_TYPES"
    unfolding outvar_types_upt N_OUTVAR_TYPES_def by simp
  have d: "set outvar_types \<inter> {106..<110} = {}"
    unfolding outvar_types_upt by auto
  show ?thesis
    using f l o m d by (simp add: N_FORCING_TYPES_def SKIP_def N_OUTVAR_TYPES_def)
qed

subsection \<open>Freezing and thawing fronts\<close>

lemma newest_append: "newest k (newest k xs @ ys) = newest k (xs @ ys)"
proof (cases "length xs \<le> k")
  case True
  then show ?thesis by (simp add: newest_def)
next
  case False
  then have "length xs - k + k = length xs"
    and "length ys + (length xs - k) = length xs + length ys - k"
    by simp_all
  then show ?thesis by (simp add: newest_def)
qed

lemma newest_id: "length xs \<le> k \<Longrightarrow> newest k xs = xs"
  by (simp add: newest_def)

lemma record_front_bounded:
  assumes "0 < m" "length ds = m" "n \<le> m"
  shows "length (fst (record_front m d ds n)) = m \<and> snd (record_front m d ds n) \<le> m"
  using assms by (auto simp: record_front_def)

lemma record_front_newest:
  assumes "0 < m" "length ds = m" "n \<le> m"
  shows "take (snd (record_front m d ds n)) (fst (record_front m d ds n))
         = newest m (take n ds @ [d])"
proof (cases "n < m")
  case True
  with assms show ?thesis
    by (simp add: record_front_def newest_def take_Suc_conv_app_nth)
next
  case False
  with assms have n: "n = m" by simp
  from assms have "ds \<noteq> []" by auto
  then obtain x xs where ds: "ds = x # xs" by (cases ds) auto
  with assms n show ?thesis
    by (simp add: record_front_def newest_def)
qed

lemma add_front_bounded:
  assumes "0 < m" "fronts_bounded m e"
  shows "fronts_bounded m (add_front m f e)"
proof (cases f)
  case (Freezing_front d)
  with assms record_front_bounded [of m "fdepth e" "Nfrost e" d] show ?thesis
    by (auto simp: fronts_bounded_def split: prod.splits)
next
  case (Thawing_front d)
  with assms record_front_bounded [of m "tdepth e" "Nthaw e" d] show ?thesis
    by (auto simp: fronts_bounded_def split: prod.splits)
qed

lemma add_front_freezing:
  assumes "0 < m" "fronts_bounded m e"
  shows "freezing_fronts (add_front m f e) = newest m (freezing_fronts e @ freezing_depths [f])"
proof (cases f)
  case (Freezing_front d)
  with assms record_front_newest [of m "fdepth e" "Nfrost e" d] show ?thesis
    by (auto simp: fronts_bounded_def freezing_fronts_def split: prod.splits)
next
  case (Thawing_front d)
  with assms show ?thesis
    by (auto simp: fronts_bounded_def freezing_fronts_def newest_def split: prod.splits)
qed

lemma add_front_thawing:
  assumes "0 < m" "fronts_bounded m e"
  shows "thawing_fronts (add_front m f e) = newest m (thawing_fronts e @ thawing_depths [f])"
proof (cases f)
  case (Freezing_front d)
  with assms show ?thesis
    by (auto simp: fronts_bounded_def thawing_fronts_def newest_def split: prod.splits)
next
  case (Thawing_front d)
  with assms record_front_newest [of m "tdepth e" "Nthaw e" d] show ?thesis
    by (auto simp: fronts_bounded_def thawing_fronts_def split: prod.splits)
qed

lemma freezing_depths_Cons: "freezing_depths (f # fs) = freezing_depths [f] @ freezing_depths fs"
  by (cases f) auto

lemma thawing_depths_Cons: "thawing_depths (f # fs) = thawing_depths [f] @ thawing_depths fs"
  by (cases f) auto

lemma add_fronts_bounded:
  "0 < m \<Longrightarrow> fronts_bounded m e \<Longrightarrow> fronts_bounded m (add_fronts m fs e)"
  by (induction fs arbitrary: e) (auto simp: add_front_bounded)

lemma add_fronts_freezing:
  "0 < m \<Longrightarrow> fronts_bounded m e \<Longrightarrow>
   freezing_fronts (add_fronts m fs e) = newest m (freezing_fronts e @ freezing_depths fs)"
proof (induction fs arbitrary: e)
  case Nil
  then show ?case
    by (simp add: newest_id freezing_fronts_def fronts_bounded_def)
next
  case (Cons f fs)
  have "freezing_fronts (add_fronts m (f # fs) e)
        = newest m (freezing_fronts (add_front m f e) @ freezing_depths fs)"
    using Cons by (simp add: add_front_bounded)
  also have "\<dots> = newest m (newest m (freezing_fronts e @ freezing_depths [f]) @ freezing_depths fs)"
    using Cons.prems by (simp add: add_front_freezing)
  also have "\<dots> = newest m (freezing_fronts e @ freezing_depths (f # fs))"
    by (simp add: newest_append freezing_depths_Cons [of f fs])
  finally show ?case .
qed

lemma add_fronts_thawing:
  "0 < m \<Longrightarrow> fronts_bounded m e \<Longrightarrow>
   thawing_fronts (add_fronts m fs e) = newest m (thawing_fronts e @ thawing_depths fs)"
proof (induction fs arbitrary: e)
  case Nil
  then show ?case
    by (simp add: newest_id thawing_fronts_def fronts_bounded_def)
next
  case (Cons f fs)
  have "thawing_fronts (add_fronts m (f # fs) e)
        = newest m (thawing_fronts (add_front m f e) @ thawing_depths fs)"
    using Cons by (simp add: add_front_bounded)
  also have "\<dots> = newest m (newest m (thawing_fronts e @ thawing_depths [f]) @ thawing_depths fs)"
    using Cons.prems by (simp add: add_front_thawing)
  also have "\<dots> = newest m (thawing_fronts e @ thawing_depths (f # fs))"
    by (simp add: newest_append thawing_depths_Cons [of f fs])
  finally show ?case .
qed

text \<open>
  C8. The freezing and thawing fronts of an energy balance record are bounded by
  \<open>max_fronts\<close>: whatever fronts are added to a record whose arrays have \<open>max_fronts\<close>
  elements and whose counts are within them, \<open>Nfrost\<close> and \<open>Nthaw\<close> stay at most
  \<open>max_fronts\<close> and the arrays keep their length. The recorded fronts are the newest
  \<open>max_fronts\<close> of all that were recorded: beyond the capacity the oldest are discarded.
\<close>

theorem fronts_bounded_discard_oldest:
  assumes "0 < max_fronts" and "fronts_bounded max_fronts e"
  shows "Nfrost (add_fronts max_fronts fs e) \<le> max_fronts
       \<and> Nthaw (add_fronts max_fronts fs e) \<le> max_fronts
       \<and> length (fdepth (add_fronts max_fronts fs e)) = max_fronts
       \<and> length (tdepth (add_fronts max_fronts fs e)) = max_fronts
       \<and> freezing_fronts (add_fronts max_fronts fs e)
           = newest max_fronts (freezing_fronts e @ freezing_depths fs)
       \<and> thawing_fronts (add_fronts max_fronts fs e)
           = newest max_fronts (thawing_fronts e @ thawing_depths fs)"
proof -
  have "fronts_bounded max_fronts (add_fronts max_fronts fs e)"
    using assms by (rule add_fronts_bounded)
  then show ?thesis
    using assms by (simp add: fronts_bounded_def add_fronts_freezing add_fronts_thawing)
qed

theorem fronts_bounded_discard_oldest_witness:
  "(0::nat) < 3
   \<and> fronts_bounded 3
       \<lparr>frozen = True, fdepth = [1/10, 2/5, 9/10], tdepth = [0, 0, 0], Nfrost = 3, Nthaw = 0\<rparr>
   \<and> Nfrost (add_fronts 3 [Freezing_front (3/2), Thawing_front (1/20)]
       \<lparr>frozen = True, fdepth = [1/10, 2/5, 9/10], tdepth = [0, 0, 0], Nfrost = 3, Nthaw = 0\<rparr>) \<le> 3
   \<and> freezing_fronts (add_fronts 3 [Freezing_front (3/2), Thawing_front (1/20)]
       \<lparr>frozen = True, fdepth = [1/10, 2/5, 9/10], tdepth = [0, 0, 0], Nfrost = 3, Nthaw = 0\<rparr>)
      = [2/5, 9/10, 3/2]
   \<and> thawing_fronts (add_fronts 3 [Freezing_front (3/2), Thawing_front (1/20)]
       \<lparr>frozen = True, fdepth = [1/10, 2/5, 9/10], tdepth = [0, 0, 0], Nfrost = 3, Nthaw = 0\<rparr>)
      = [1/20]"
proof -
  let ?e = "\<lparr>frozen = True, fdepth = [1/10, 2/5, 9/10], tdepth = [0, 0, 0], Nfrost = 3, Nthaw = 0\<rparr>"
  have pos: "(0::nat) < 3" by simp
  have ok: "fronts_bounded 3 ?e" by (simp add: fronts_bounded_def)
  have new: "newest 3 [1/10, 2/5, 9/10, 3/2 :: real] = [2/5, 9/10, 3/2]"
    and none: "newest 3 [1/20 :: real] = [1/20]"
    by (simp_all add: newest_def)
  from fronts_bounded_discard_oldest [OF pos ok, of "[Freezing_front (3/2), Thawing_front (1/20)]"]
  show ?thesis
    using pos ok new none by (simp add: freezing_fronts_def thawing_fronts_def)
qed

end
